theory Spec2Isabelle
  imports Complex_Main
begin

section \<open>Ray-casting selection and the depth reel: the Game class\<close>

text \<open>
  The development follows the class \<open>Game\<close> of the raycasting example, in the version
  that has the thumbstick reel (\<open>onRightThumbstick\<close>); the shorter source file is the
  same class without the reel. JavaScript numbers are taken as real numbers. The
  rendering engine is a collaborator: its scene graph, its ray caster and its haptics
  are represented by the few attributes the class reads and writes.
\<close>

subsection \<open>Engine values: vectors, colours, rays\<close>

datatype Vector3 = Vector3 (vx: real) (vy: real) (vz: real)

definition Vector3_Zero :: Vector3 where
  "Vector3_Zero = Vector3 0 0 0"

definition Vector3_scale :: "Vector3 \<Rightarrow> real \<Rightarrow> Vector3" where
  "Vector3_scale v k = Vector3 (vx v * k) (vy v * k) (vz v * k)"

definition Vector3_add :: "Vector3 \<Rightarrow> Vector3 \<Rightarrow> Vector3" where
  "Vector3_add u v = Vector3 (vx u + vx v) (vy u + vy v) (vz u + vz v)"

definition Vector3_length :: "Vector3 \<Rightarrow> real" where
  "Vector3_length v = sqrt (vx v * vx v + vy v * vy v + vz v * vz v)"

datatype Color3 = Color3 real real real

definition Yellow :: Color3 where "Yellow = Color3 1 1 0"
definition Green :: Color3 where "Green = Color3 0 1 0"
definition Blue :: Color3 where "Blue = Color3 0 0 1"

datatype Ray = Ray (origin: Vector3) (direction: Vector3) (ray_length: real)

subsection \<open>Scene nodes\<close>

text \<open>
  The meshes of the scene built by \<open>createScene\<close>: the ground and the skybox of the
  default environment, the laser pointer line and the cubes of the testbed. A node
  that can be a parent is a mesh, the selection transform or the pointer of an input
  source (named by the source's \<open>uniqueId\<close>).
\<close>

datatype mesh_id = Ground | Skybox | LaserPointer | Cube nat

datatype node_id = MeshNode mesh_id | SelectionTransform | ControllerPointer string

text \<open>
  The attributes of a mesh that the class touches. \<open>edgesRendering\<close> is the highlight
  outline (\<open>enableEdgesRendering\<close> / \<open>disableEdgesRendering\<close>); \<open>absolutePosition\<close> is
  the world-space position as the calls of the class leave it (how the engine moves a
  child with its parent between frames is not represented).
\<close>

record AbstractMesh =
  parent :: "node_id option"
  edgesRendering :: bool
  isPickable :: bool
  visibility :: real
  absolutePosition :: Vector3

record PickingInfo =
  hit :: bool
  pickedMesh :: "mesh_id option"
  distance :: real

subsection \<open>Controllers\<close>

text \<open>
  A controller component as polled in a frame: \<open>changes_pressed\<close> says that
  \<open>component.changes.pressed\<close> is defined (the pressed state changed since the last
  update), \<open>pressed\<close> is the current state and \<open>axes_y\<close> is \<open>component.axes.y\<close>.
\<close>

record Component =
  changes_pressed :: bool
  pressed :: bool
  axes_y :: real

record MotionController =
  components :: "(string \<times> Component) list"

record InputSource =
  uniqueId :: string

definition getComponent :: "MotionController \<Rightarrow> string \<Rightarrow> Component option" where
  "getComponent mc ident = map_of (components mc) ident"

definition endsWith :: "string \<Rightarrow> string \<Rightarrow> bool" where
  "endsWith str suf =
     (length suf \<le> length str \<and> drop (length str - length suf) str = suf)"

subsection \<open>The state of the game and the engine's input to a frame\<close>

text \<open>
  The fields of \<open>Game\<close> once \<open>createScene\<close> has run (the render loop is registered in
  its continuation, so \<open>laserPointer\<close> and \<open>selectionTransform\<close> are set in every
  frame). \<open>haptics\<close> records the calls of \<open>pulse\<close> as (value, duration) pairs.
\<close>

record Game =
  leftController :: "InputSource option"
  rightController :: "InputSource option"
  selectedObject :: "mesh_id option"
  selectionTransform_position :: Vector3
  laserPointer_color :: Color3
  scene_meshes :: "mesh_id list"
  meshes :: "mesh_id \<Rightarrow> AbstractMesh"
  haptics :: "(real \<times> real) list"

text \<open>
  What the engine supplies in one frame: the motion controller of the right input
  source (if it has one), the pose of its pointer, the forward axis of the laser
  pointer, the time since the last frame in milliseconds, and the geometry of the
  scene as the distance at which a ray meets a mesh (if it does).
\<close>

record Frame =
  motionController :: "MotionController option"
  pointer_position :: Vector3
  pointer_forward :: Vector3
  laser_forward :: Vector3
  deltaTime :: real
  intersects :: "Ray \<Rightarrow> mesh_id \<Rightarrow> real option"

text \<open>
  Reading a property of \<open>undefined\<close> or \<open>null\<close> throws a TypeError. The exception
  leaves \<open>update\<close>, so a handler returns either the error or the next state, and a
  session ends at the first frame that throws.
\<close>

datatype error = TypeError

subsection \<open>Engine primitives\<close>

definition update_mesh :: "Game \<Rightarrow> mesh_id \<Rightarrow> (AbstractMesh \<Rightarrow> AbstractMesh) \<Rightarrow> Game" where
  "update_mesh s m f = s\<lparr>meshes := (meshes s)(m := f (meshes s m))\<rparr>"

text \<open>
  Modelled from the spec: the engine's switches for the highlight outline of a mesh,
  \<open>enableEdgesRendering\<close> and \<open>disableEdgesRendering\<close> (not in the repository).
\<close>

definition enableEdgesRendering :: "Game \<Rightarrow> mesh_id \<Rightarrow> Game" where
  "enableEdgesRendering s m = update_mesh s m (\<lambda>a. a\<lparr>edgesRendering := True\<rparr>)"

definition disableEdgesRendering :: "Game \<Rightarrow> mesh_id \<Rightarrow> Game" where
  "disableEdgesRendering s m = update_mesh s m (\<lambda>a. a\<lparr>edgesRendering := False\<rparr>)"

text \<open>
  Modelled from the spec: the engine's \<open>setParent\<close> (the scene graph is the engine's,
  not the repository's). It changes the parent and preserves the world transform of the node.
\<close>

definition setParent :: "Game \<Rightarrow> mesh_id \<Rightarrow> node_id option \<Rightarrow> Game" where
  "setParent s m p = update_mesh s m (\<lambda>a. a\<lparr>parent := p\<rparr>)"

text \<open>
  Modelled from the spec: the engine's \<open>translate\<close> in world space (not in the
  repository). The world position moves by the axis scaled by the distance.
\<close>

definition translate :: "Game \<Rightarrow> mesh_id \<Rightarrow> Vector3 \<Rightarrow> real \<Rightarrow> Game" where
  "translate s m axis amount =
     update_mesh s m
       (\<lambda>a. a\<lparr>absolutePosition := Vector3_add (absolutePosition a) (Vector3_scale axis amount)\<rparr>)"

text \<open>The picking result of a ray that hits nothing.\<close>

definition noHit :: PickingInfo where
  "noHit = \<lparr>hit = False, pickedMesh = None, distance = 0\<rparr>"

text \<open>
  Modelled from the spec: the engine's ray caster \<open>scene.pickWithRay\<close> (not in the
  repository). Given origin, direction and maximum length it reports the nearest
  intersected mesh and the hit distance, or no hit. The source sets \<open>isPickable\<close> to
  false on meshes that the ray cast must skip, so the candidates are the meshes of the
  scene whose \<open>isPickable\<close> is true. Where a ray meets a mesh is the engine's geometry
  and comes with the frame (\<open>intersects\<close>); of two meshes at the same distance the
  earlier one in the scene is kept.
\<close>

fun pickNearest :: "(mesh_id \<Rightarrow> real option) \<Rightarrow> real \<Rightarrow> mesh_id list \<Rightarrow> PickingInfo \<Rightarrow> PickingInfo" where
  "pickNearest f len [] best = best"
| "pickNearest f len (m # ms) best =
     (case f m of
        None \<Rightarrow> pickNearest f len ms best
      | Some d \<Rightarrow>
          if 0 \<le> d \<and> d \<le> len \<and> (if hit best then d < distance best else True)
          then pickNearest f len ms \<lparr>hit = True, pickedMesh = Some m, distance = d\<rparr>
          else pickNearest f len ms best)"

text \<open>
  Modelled from the spec: \<open>scene.pickWithRay(ray)\<close> as described above; its result is
  never null.
\<close>

definition pickWithRay :: "Game \<Rightarrow> Frame \<Rightarrow> Ray \<Rightarrow> PickingInfo option" where
  "pickWithRay s env ray =
     Some (pickNearest (intersects env ray) (ray_length ray)
             (filter (\<lambda>m. isPickable (meshes s m)) (scene_meshes s)) noHit)"

text \<open>
  \<open>this.rightController?.motionController?.pulse(value, duration)\<close>: the pulse is
  requested when the right controller and its motion controller exist, and is then
  recorded in \<open>haptics\<close>.
\<close>

definition pulse :: "Game \<Rightarrow> Frame \<Rightarrow> real \<Rightarrow> real \<Rightarrow> Game" where
  "pulse s env v d =
     (case rightController s of
        None \<Rightarrow> s
      | Some rc \<Rightarrow>
          (case motionController env of
             None \<Rightarrow> s
           | Some mc \<Rightarrow> s\<lparr>haptics := haptics s @ [(v, d)]\<rparr>))"

subsection \<open>createScene and the controller observers\<close>

text \<open>
  The scene after \<open>createScene\<close>. The cubes are placed at random, so their positions
  are a parameter. Ground, skybox and laser pointer are made non-pickable; the laser
  pointer is yellow and hidden until a right controller is added.
\<close>

definition newMesh :: "Vector3 \<Rightarrow> AbstractMesh" where
  "newMesh p = \<lparr>parent = None, edgesRendering = False, isPickable = True,
                visibility = 1, absolutePosition = p\<rparr>"

definition createScene :: "(nat \<Rightarrow> Vector3) \<Rightarrow> Game" where
  "createScene cubePosition =
     \<lparr>leftController = None,
      rightController = None,
      selectedObject = None,
      selectionTransform_position = Vector3_Zero,
      laserPointer_color = Yellow,
      scene_meshes = [Ground, Skybox, LaserPointer] @ map Cube [0..<100],
      meshes = (\<lambda>m. case m of
                  Ground \<Rightarrow> (newMesh Vector3_Zero)\<lparr>isPickable := False\<rparr>
                | Skybox \<Rightarrow> (newMesh Vector3_Zero)\<lparr>isPickable := False\<rparr>
                | LaserPointer \<Rightarrow> (newMesh Vector3_Zero)\<lparr>visibility := 0, isPickable := False\<rparr>
                | Cube i \<Rightarrow> newMesh (cubePosition i)),
      haptics = []\<rparr>"

definition onControllerAdded :: "Game \<Rightarrow> InputSource \<Rightarrow> Game" where
  "onControllerAdded s inputSource =
     (if endsWith (uniqueId inputSource) ''right''
      then update_mesh (s\<lparr>rightController := Some inputSource\<rparr>) LaserPointer
             (\<lambda>a. a\<lparr>parent := Some (ControllerPointer (uniqueId inputSource)), visibility := 1\<rparr>)
      else s\<lparr>leftController := Some inputSource\<rparr>)"

definition onControllerRemoved :: "Game \<Rightarrow> InputSource \<Rightarrow> Game" where
  "onControllerRemoved s inputSource =
     (if endsWith (uniqueId inputSource) ''right''
      then update_mesh s LaserPointer (\<lambda>a. a\<lparr>parent := None, visibility := 0\<rparr>)
      else s)"

subsection \<open>The per-frame handlers\<close>

text \<open>\<open>this.rightController?.motionController?.getComponent(ident)\<close>\<close>

definition rightComponent :: "Game \<Rightarrow> Frame \<Rightarrow> string \<Rightarrow> Component option" where
  "rightComponent s env ident =
     (case rightController s of
        None \<Rightarrow> None
      | Some rc \<Rightarrow>
          (case motionController env of
             None \<Rightarrow> None
           | Some mc \<Rightarrow> getComponent mc ident))"

text \<open>The block that deselects the currently selected object on a press.\<close>

definition deselect :: "Game \<Rightarrow> Game" where
  "deselect s =
     (case selectedObject s of
        None \<Rightarrow> s
      | Some old \<Rightarrow> (disableEdgesRendering s old)\<lparr>selectedObject := None\<rparr>)"

definition onRightTrigger :: "Game \<Rightarrow> Frame \<Rightarrow> Component option \<Rightarrow> error + Game" where
  "onRightTrigger s env component =
     (case component of
        None \<Rightarrow> Inr s
      | Some c \<Rightarrow>
          if changes_pressed c then
            if pressed c then
              (let s1 = s\<lparr>laserPointer_color := Green\<rparr> in
               case rightController s1 of
                 None \<Rightarrow> Inl TypeError
               | Some rc \<Rightarrow>
                   (let ray = Ray (pointer_position env) (pointer_forward env) 20;
                        pickInfo = pickWithRay s1 env ray;
                        s2 = deselect s1
                    in case pickInfo of
                         None \<Rightarrow> Inr s2
                       | Some p \<Rightarrow>
                           if hit p then
                             (case pickedMesh p of
                                None \<Rightarrow> Inl TypeError
                              | Some m \<Rightarrow>
                                  (let s3 = enableEdgesRendering (s2\<lparr>selectedObject := Some m\<rparr>) m;
                                       s4 = s3\<lparr>selectionTransform_position := Vector3 0 0 (distance p)\<rparr>;
                                       s5 = setParent s4 m (Some SelectionTransform)
                                   in Inr (pulse s5 env (2 / 10) 50)))
                           else Inr s2))
            else
              (let s1 = s\<lparr>laserPointer_color := Blue\<rparr> in
               case selectedObject s1 of
                 None \<Rightarrow> Inr s1
               | Some m \<Rightarrow> Inr (pulse (setParent s1 m None) env (2 / 10) 50))
          else Inr s)"

definition onRightThumbstick :: "Game \<Rightarrow> Frame \<Rightarrow> Component option \<Rightarrow> error + Game" where
  "onRightThumbstick s env component =
     (case selectedObject s of
        None \<Rightarrow> Inr s
      | Some m \<Rightarrow>
          if parent (meshes s m) \<noteq> None then
            (case component of
               None \<Rightarrow> Inl TypeError
             | Some c \<Rightarrow>
                 (let moveDistance = - axes_y c * (deltaTime env / 1000) * 3
                  in Inr (translate s m (laser_forward env) moveDistance)))
          else Inr s)"

definition processControllerInput :: "Game \<Rightarrow> Frame \<Rightarrow> error + Game" where
  "processControllerInput s env =
     (case onRightTrigger s env (rightComponent s env ''xr-standard-trigger'') of
        Inl e \<Rightarrow> Inl e
      | Inr s' \<Rightarrow> onRightThumbstick s' env (rightComponent s' env ''xr-standard-thumbstick''))"

definition update :: "Game \<Rightarrow> Frame \<Rightarrow> error + Game" where
  "update s env = processControllerInput s env"

subsection \<open>Sessions: sequences of engine callbacks\<close>

datatype event = ControllerAdded InputSource | ControllerRemoved InputSource | Render Frame

fun step :: "Game \<Rightarrow> event \<Rightarrow> error + Game" where
  "step s (ControllerAdded src) = Inr (onControllerAdded s src)"
| "step s (ControllerRemoved src) = Inr (onControllerRemoved s src)"
| "step s (Render env) = update s env"

fun run :: "Game \<Rightarrow> event list \<Rightarrow> error + Game" where
  "run s [] = Inr s"
| "run s (e # es) = (case step s e of Inl err \<Rightarrow> Inl err | Inr s' \<Rightarrow> run s' es)"

subsection \<open>Auxiliary notions for the statements\<close>

text \<open>
  The state that \<open>onRightTrigger\<close> builds on a press whose ray hits \<open>m\<close> at distance
  \<open>d\<close>: the pointer turns green, the old selection is dropped, \<open>m\<close> is stored and
  outlined, the selection transform is placed at \<open>(0, 0, d)\<close>, \<open>m\<close> is parented to it
  and the controller pulses.
\<close>

definition grab :: "Game \<Rightarrow> Frame \<Rightarrow> mesh_id \<Rightarrow> real \<Rightarrow> Game" where
  "grab s env m d =
     pulse (setParent
              ((enableEdgesRendering ((deselect (s\<lparr>laserPointer_color := Green\<rparr>))\<lparr>selectedObject := Some m\<rparr>) m)
                 \<lparr>selectionTransform_position := Vector3 0 0 d\<rparr>)
              m (Some SelectionTransform))
       env (2 / 10) 50"

text \<open>Every outlined mesh is the selected object.\<close>

definition highlight_inv :: "Game \<Rightarrow> bool" where
  "highlight_inv s = (\<forall>m. edgesRendering (meshes s m) \<longrightarrow> selectedObject s = Some m)"

subsection \<open>Example sessions\<close>

text \<open>Concrete inputs on which the statements below are instantiated.\<close>

definition exampleCubes :: "nat \<Rightarrow> Vector3" where
  "exampleCubes i = Vector3 (real i) 1 5"

definition rightSource :: InputSource where
  "rightSource = \<lparr>uniqueId = ''controller-0-tracked-pointer-right''\<rparr>"

definition pressEdge :: Component where
  "pressEdge = \<lparr>changes_pressed = True, pressed = True, axes_y = 0\<rparr>"

definition releaseEdge :: Component where
  "releaseEdge = \<lparr>changes_pressed = True, pressed = False, axes_y = 0\<rparr>"

definition stick :: "real \<Rightarrow> Component" where
  "stick a = \<lparr>changes_pressed = False, pressed = False, axes_y = a\<rparr>"

definition onlyCube :: "nat \<Rightarrow> real \<Rightarrow> mesh_id \<Rightarrow> real option" where
  "onlyCube k d m = (if m = Cube k then Some d else None)"

definition onlyEnvironment :: "mesh_id \<Rightarrow> real option" where
  "onlyEnvironment m =
     (if m = Ground then Some 2 else if m = Skybox then Some 18
      else if m = LaserPointer then Some 0 else None)"

definition exampleFrame :: "Component option \<Rightarrow> Component option \<Rightarrow> (mesh_id \<Rightarrow> real option) \<Rightarrow> Frame" where
  "exampleFrame trigger thumbstick geometry =
     \<lparr>motionController =
        Some \<lparr>components =
                (case trigger of None \<Rightarrow> [] | Some c \<Rightarrow> [(''xr-standard-trigger'', c)]) @
                (case thumbstick of None \<Rightarrow> [] | Some c \<Rightarrow> [(''xr-standard-thumbstick'', c)])\<rparr>,
      pointer_position = Vector3 0 1 0,
      pointer_forward = Vector3 0 0 1,
      laser_forward = Vector3 0 0 1,
      deltaTime = 20,
      intersects = (\<lambda>ray. geometry)\<rparr>"

definition connectedScene :: Game where
  "connectedScene = onControllerAdded (createScene exampleCubes) rightSource"

definition session1 :: "event list" where
  "session1 =
     [ControllerAdded rightSource,
      Render (exampleFrame (Some pressEdge) (Some (stick 0)) (onlyCube 7 5)),
      Render (exampleFrame (Some releaseEdge) (Some (stick 0)) (onlyCube 7 5)),
      Render (exampleFrame (Some pressEdge) (Some (stick 0)) (onlyCube 3 4))]"

text \<open>
  \<open>holding\<close> is the state after the first press of \<open>session1\<close> (cube 7 grabbed at
  distance 5); \<open>missed\<close> is the state after a first press whose ray meets no pickable
  mesh.
\<close>

definition holding :: Game where
  "holding = grab connectedScene (exampleFrame (Some pressEdge) (Some (stick 0)) (onlyCube 7 5)) (Cube 7) 5"

definition missed :: Game where
  "missed = connectedScene\<lparr>laserPointer_color := Green\<rparr>"

definition session2 :: "event list" where
  "session2 =
     [ControllerAdded rightSource,
      Render (exampleFrame (Some pressEdge) (Some (stick 0)) (onlyCube 7 5)),
      Render (exampleFrame (Some releaseEdge) (Some (stick 0)) (onlyCube 7 5))]"

definition session3 :: "event list" where
  "session3 =
     [ControllerAdded rightSource,
      Render (exampleFrame (Some pressEdge) None (onlyCube 7 5))]"

text \<open>A frame or event in which the trigger of the right controller has a press edge.\<close>

fun pressFrame :: "Game \<Rightarrow> event \<Rightarrow> bool" where
  "pressFrame s (Render env) =
     (case rightComponent s env ''xr-standard-trigger'' of
        None \<Rightarrow> False
      | Some c \<Rightarrow> changes_pressed c \<and> pressed c)"
| "pressFrame s (ControllerAdded src) = False"
| "pressFrame s (ControllerRemoved src) = False"

text \<open>
  Ground, skybox and laser pointer are not pickable, and the selected object is
  pickable.
\<close>

definition pickable_inv :: "Game \<Rightarrow> bool" where
  "pickable_inv s =
     (\<not> isPickable (meshes s Ground) \<and> \<not> isPickable (meshes s Skybox) \<and>
      \<not> isPickable (meshes s LaserPointer) \<and>
      (\<forall>m. selectedObject s = Some m \<longrightarrow> isPickable (meshes s m)))"

text \<open>\<open>released\<close> is the state after the release that follows in \<open>session2\<close>.\<close>

definition released :: Game where
  "released =
     pulse (setParent (holding\<lparr>laserPointer_color := Blue\<rparr>) (Cube 7) None)
       (exampleFrame (Some releaseEdge) (Some (stick 0)) (onlyCube 7 5)) (2 / 10) 50"


section \<open>Properties\<close>

subsection \<open>The handlers case by case\<close>

lemmas model_defs = createScene_def newMesh_def onControllerAdded_def onControllerRemoved_def
  endsWith_def update_def processControllerInput_def onRightTrigger_def onRightThumbstick_def
  rightComponent_def getComponent_def deselect_def pickWithRay_def noHit_def Let_def
  update_mesh_def enableEdgesRendering_def disableEdgesRendering_def setParent_def
  translate_def pulse_def Vector3_add_def Vector3_scale_def Vector3_Zero_def

lemmas example_defs = exampleCubes_def rightSource_def pressEdge_def releaseEdge_def stick_def
  onlyCube_def onlyEnvironment_def exampleFrame_def connectedScene_def session1_def
  session2_def session3_def holding_def missed_def released_def

lemma pickWithRay_color [simp]:
  "pickWithRay (s\<lparr>laserPointer_color := col\<rparr>) env ray = pickWithRay s env ray"
  by (simp add: pickWithRay_def)

lemma update_mesh_fields [simp]:
  "leftController (update_mesh s m f) = leftController s"
  "rightController (update_mesh s m f) = rightController s"
  "selectedObject (update_mesh s m f) = selectedObject s"
  "selectionTransform_position (update_mesh s m f) = selectionTransform_position s"
  "laserPointer_color (update_mesh s m f) = laserPointer_color s"
  "scene_meshes (update_mesh s m f) = scene_meshes s"
  "haptics (update_mesh s m f) = haptics s"
  "meshes (update_mesh s m f) = (meshes s)(m := f (meshes s m))"
  by (simp_all add: update_mesh_def)

lemma pulse_fields [simp]:
  "leftController (pulse s env v d) = leftController s"
  "rightController (pulse s env v d) = rightController s"
  "selectedObject (pulse s env v d) = selectedObject s"
  "selectionTransform_position (pulse s env v d) = selectionTransform_position s"
  "laserPointer_color (pulse s env v d) = laserPointer_color s"
  "scene_meshes (pulse s env v d) = scene_meshes s"
  "meshes (pulse s env v d) = meshes s"
  by (simp_all add: pulse_def split: option.splits)

lemma pulse_haptics:
  "rightController s = Some rc \<Longrightarrow> motionController env = Some mc \<Longrightarrow>
   haptics (pulse s env v d) = haptics s @ [(v, d)]"
  by (simp add: pulse_def)

lemma deselect_fields [simp]:
  "leftController (deselect s) = leftController s"
  "rightController (deselect s) = rightController s"
  "selectedObject (deselect s) = None"
  "selectionTransform_position (deselect s) = selectionTransform_position s"
  "laserPointer_color (deselect s) = laserPointer_color s"
  "scene_meshes (deselect s) = scene_meshes s"
  "haptics (deselect s) = haptics s"
  by (simp_all add: deselect_def disableEdgesRendering_def split: option.splits)

lemma deselect_meshes:
  "meshes (deselect s) =
     (case selectedObject s of
        None \<Rightarrow> meshes s
      | Some old \<Rightarrow> (meshes s)(old := (meshes s old)\<lparr>edgesRendering := False\<rparr>))"
  by (simp add: deselect_def disableEdgesRendering_def split: option.splits)

lemma onRightTrigger_None: "onRightTrigger s env None = Inr s"
  by (simp add: onRightTrigger_def)

lemma onRightTrigger_unchanged:
  "\<not> changes_pressed c \<Longrightarrow> onRightTrigger s env (Some c) = Inr s"
  by (simp add: onRightTrigger_def)

lemma onRightTrigger_release:
  "changes_pressed c \<Longrightarrow> \<not> pressed c \<Longrightarrow>
   onRightTrigger s env (Some c) =
     Inr (case selectedObject s of
            None \<Rightarrow> s\<lparr>laserPointer_color := Blue\<rparr>
          | Some m \<Rightarrow> pulse (setParent (s\<lparr>laserPointer_color := Blue\<rparr>) m None) env (2 / 10) 50)"
  by (simp add: onRightTrigger_def Let_def split: option.splits)

lemma onRightTrigger_press_hit:
  "changes_pressed c \<Longrightarrow> pressed c \<Longrightarrow> rightController s = Some rc \<Longrightarrow>
   pickWithRay s env (Ray (pointer_position env) (pointer_forward env) 20) = Some p \<Longrightarrow>
   hit p \<Longrightarrow> pickedMesh p = Some m \<Longrightarrow>
   onRightTrigger s env (Some c) = Inr (grab s env m (distance p))"
  by (simp add: onRightTrigger_def Let_def grab_def)

lemma onRightTrigger_press_miss:
  "changes_pressed c \<Longrightarrow> pressed c \<Longrightarrow> rightController s = Some rc \<Longrightarrow>
   pickWithRay s env (Ray (pointer_position env) (pointer_forward env) 20) = Some p \<Longrightarrow>
   \<not> hit p \<Longrightarrow>
   onRightTrigger s env (Some c) = Inr (deselect (s\<lparr>laserPointer_color := Green\<rparr>))"
  by (simp add: onRightTrigger_def Let_def)

lemma onRightTrigger_press_cases:
  assumes "changes_pressed c" "pressed c" "onRightTrigger s env (Some c) = Inr s'"
  shows "s' = deselect (s\<lparr>laserPointer_color := Green\<rparr>) \<or>
         (\<exists>p m. pickWithRay s env (Ray (pointer_position env) (pointer_forward env) 20) = Some p \<and>
                hit p \<and> pickedMesh p = Some m \<and> s' = grab s env m (distance p))"
  using assms
  by (simp add: onRightTrigger_def Let_def grab_def split: option.splits if_splits)

lemma onRightTrigger_cases:
  assumes "onRightTrigger s env component = Inr s'"
  shows "s' = s \<or> s' = s\<lparr>laserPointer_color := Blue\<rparr> \<or>
         (\<exists>m. selectedObject s = Some m \<and>
              s' = pulse (setParent (s\<lparr>laserPointer_color := Blue\<rparr>) m None) env (2 / 10) 50) \<or>
         s' = deselect (s\<lparr>laserPointer_color := Green\<rparr>) \<or>
         (\<exists>p m. pickWithRay s env (Ray (pointer_position env) (pointer_forward env) 20) = Some p \<and>
                hit p \<and> pickedMesh p = Some m \<and> s' = grab s env m (distance p))"
proof (cases component)
  case None
  with assms show ?thesis by (simp add: onRightTrigger_None)
next
  case (Some c)
  show ?thesis
  proof (cases "changes_pressed c")
    case False
    with assms Some show ?thesis by (simp add: onRightTrigger_unchanged)
  next
    case True
    show ?thesis
    proof (cases "pressed c")
      case True
      from onRightTrigger_press_cases[OF \<open>changes_pressed c\<close> True] assms Some
      show ?thesis by blast
    next
      case False
      from onRightTrigger_release[OF \<open>changes_pressed c\<close> False, of s env] assms Some
      show ?thesis by (cases "selectedObject s") auto
    qed
  qed
qed

lemma grab_fields [simp]:
  "selectedObject (grab s env m d) = Some m"
  "selectionTransform_position (grab s env m d) = Vector3 0 0 d"
  "laserPointer_color (grab s env m d) = Green"
  "rightController (grab s env m d) = rightController s"
  "scene_meshes (grab s env m d) = scene_meshes s"
  by (simp_all add: grab_def setParent_def enableEdgesRendering_def)

lemma grab_meshes:
  "meshes (grab s env m d) =
     (meshes (deselect s))(m := (meshes (deselect s) m)\<lparr>edgesRendering := True, parent := Some SelectionTransform\<rparr>)"
  by (simp add: grab_def setParent_def enableEdgesRendering_def deselect_meshes split: option.splits)

lemma createScene_edges: "\<not> edgesRendering (meshes (createScene cubePosition) m)"
  by (cases m) (simp_all add: createScene_def newMesh_def)

lemma createScene_highlight_inv: "highlight_inv (createScene cubePosition)"
  by (simp add: highlight_inv_def createScene_edges)

lemma onControllerAdded_highlight_inv:
  "highlight_inv s \<Longrightarrow> highlight_inv (onControllerAdded s src)"
  by (simp add: highlight_inv_def onControllerAdded_def)

lemma onControllerRemoved_highlight_inv:
  "highlight_inv s \<Longrightarrow> highlight_inv (onControllerRemoved s src)"
  by (simp add: highlight_inv_def onControllerRemoved_def)

lemma deselect_no_highlight:
  "highlight_inv s \<Longrightarrow> \<not> edgesRendering (meshes (deselect s) m)"
  by (auto simp: highlight_inv_def deselect_meshes split: option.splits)

lemma highlight_inv_color [simp]:
  "highlight_inv (s\<lparr>laserPointer_color := col\<rparr>) = highlight_inv s"
  by (simp add: highlight_inv_def)

lemma onRightTrigger_highlight_inv:
  assumes inv: "highlight_inv s" and r: "onRightTrigger s env component = Inr s'"
  shows "highlight_inv s'"
  using onRightTrigger_cases[OF r]
proof (elim disjE exE conjE)
  assume "s' = s"
  with inv show ?thesis by simp
next
  assume "s' = s\<lparr>laserPointer_color := Blue\<rparr>"
  with inv show ?thesis by simp
next
  fix m
  assume "s' = pulse (setParent (s\<lparr>laserPointer_color := Blue\<rparr>) m None) env (2 / 10) 50"
  with inv show ?thesis by (auto simp: highlight_inv_def setParent_def split: if_splits)
next
  assume s': "s' = deselect (s\<lparr>laserPointer_color := Green\<rparr>)"
  have "\<And>k. \<not> edgesRendering (meshes s' k)"
    using deselect_no_highlight[of "s\<lparr>laserPointer_color := Green\<rparr>"] inv s' by simp
  then show ?thesis by (simp add: highlight_inv_def)
next
  fix p m
  assume s': "s' = grab s env m (distance p)"
  have "\<And>k. \<not> edgesRendering (meshes (deselect s) k)"
    using deselect_no_highlight[OF inv] by simp
  with s' show ?thesis by (simp add: highlight_inv_def grab_meshes)
qed

lemma onRightThumbstick_cases:
  assumes "onRightThumbstick s env component = Inr s'"
  shows "s' = s \<or> (\<exists>m c. selectedObject s = Some m \<and> component = Some c \<and>
            s' = translate s m (laser_forward env) (- axes_y c * (deltaTime env / 1000) * 3))"
  using assms
  by (simp add: onRightThumbstick_def Let_def split: option.splits if_splits)

lemma translate_fields [simp]:
  "leftController (translate s m axis amount) = leftController s"
  "rightController (translate s m axis amount) = rightController s"
  "selectedObject (translate s m axis amount) = selectedObject s"
  "selectionTransform_position (translate s m axis amount) = selectionTransform_position s"
  "laserPointer_color (translate s m axis amount) = laserPointer_color s"
  "scene_meshes (translate s m axis amount) = scene_meshes s"
  "haptics (translate s m axis amount) = haptics s"
  "edgesRendering (meshes (translate s m axis amount) k) = edgesRendering (meshes s k)"
  "parent (meshes (translate s m axis amount) k) = parent (meshes s k)"
  "isPickable (meshes (translate s m axis amount) k) = isPickable (meshes s k)"
  "visibility (meshes (translate s m axis amount) k) = visibility (meshes s k)"
  by (simp_all add: translate_def)

lemma translate_position:
  "absolutePosition (meshes (translate s m axis amount) k) =
     (if k = m then Vector3_add (absolutePosition (meshes s m)) (Vector3_scale axis amount)
      else absolutePosition (meshes s k))"
  by (simp add: translate_def)

lemma onRightThumbstick_highlight_inv:
  assumes inv: "highlight_inv s" and r: "onRightThumbstick s env component = Inr s'"
  shows "highlight_inv s'"
  using onRightThumbstick_cases[OF r]
proof (elim disjE exE conjE)
  assume "s' = s"
  with inv show ?thesis by simp
next
  fix m c
  assume "s' = translate s m (laser_forward env) (- axes_y c * (deltaTime env / 1000) * 3)"
  with inv show ?thesis by (simp add: highlight_inv_def)
qed

lemma step_highlight_inv:
  "highlight_inv s \<Longrightarrow> step s e = Inr s' \<Longrightarrow> highlight_inv s'"
proof (cases e)
  case (Render env)
  assume inv: "highlight_inv s" and st: "step s e = Inr s'"
  from st Render obtain s1 where
    t: "onRightTrigger s env (rightComponent s env ''xr-standard-trigger'') = Inr s1" and
    u: "onRightThumbstick s1 env (rightComponent s1 env ''xr-standard-thumbstick'') = Inr s'"
    by (auto simp: update_def processControllerInput_def split: sum.splits)
  from onRightTrigger_highlight_inv[OF inv t] have "highlight_inv s1" .
  from onRightThumbstick_highlight_inv[OF this u] show ?thesis .
qed (auto simp: onControllerAdded_highlight_inv onControllerRemoved_highlight_inv)

lemma run_highlight_inv:
  "highlight_inv s \<Longrightarrow> run s evs = Inr s' \<Longrightarrow> highlight_inv s'"
proof (induction evs arbitrary: s)
  case Nil
  then show ?case by simp
next
  case (Cons e evs)
  then show ?case
    by (auto split: sum.splits dest: step_highlight_inv)
qed

lemma press_drops_old_highlight:
  assumes old: "selectedObject s = Some old" and c: "changes_pressed c" "pressed c"
    and r: "onRightTrigger s env (Some c) = Inr s'" and ne: "selectedObject s' \<noteq> Some old"
  shows "\<not> edgesRendering (meshes s' old)"
  using onRightTrigger_press_cases[OF c r]
proof (elim disjE exE conjE)
  assume "s' = deselect (s\<lparr>laserPointer_color := Green\<rparr>)"
  with old show ?thesis by (simp add: deselect_meshes)
next
  fix p m
  assume s': "s' = grab s env m (distance p)"
  with ne have "m \<noteq> old" by auto
  with s' old show ?thesis by (simp add: grab_meshes deselect_meshes)
qed

lemma rightComponent_SomeD:
  assumes "rightComponent s env ident = Some c"
  shows "\<exists>rc mc. rightController s = Some rc \<and> motionController env = Some mc \<and>
           getComponent mc ident = Some c"
  using assms by (simp add: rightComponent_def split: option.splits)

lemma grab_haptics:
  "rightController s = Some rc \<Longrightarrow> motionController env = Some mc \<Longrightarrow>
   haptics (grab s env m d) = haptics s @ [(2 / 10, 50)]"
  by (simp add: grab_def pulse_haptics setParent_def enableEdgesRendering_def)

lemma grab_mesh_picked:
  "edgesRendering (meshes (grab s env m d) m)"
  "parent (meshes (grab s env m d) m) = Some SelectionTransform"
  "absolutePosition (meshes (grab s env m d) m) = absolutePosition (meshes s m)"
  "isPickable (meshes (grab s env m d) k) = isPickable (meshes s k)"
  by (simp_all add: grab_meshes deselect_meshes split: option.splits)

lemma Vector3_length_scale:
  "Vector3_length (Vector3_scale v k) = \<bar>k\<bar> * Vector3_length v"
proof -
  have "vx v * k * (vx v * k) + vy v * k * (vy v * k) + vz v * k * (vz v * k) =
        k\<^sup>2 * (vx v * vx v + vy v * vy v + vz v * vz v)"
    by (simp add: power2_eq_square algebra_simps)
  then show ?thesis
    by (simp add: Vector3_length_def Vector3_scale_def real_sqrt_mult)
qed

lemma Vector3_add_scale_zero: "Vector3_add u (Vector3_scale v 0) = u"
  by (simp add: Vector3_add_def Vector3_scale_def)

lemma translate_zero: "translate s m axis 0 = s"
  by (simp add: translate_def update_mesh_def Vector3_add_scale_zero)

lemma onRightThumbstick_held:
  "selectedObject s = Some m \<Longrightarrow> parent (meshes s m) = Some p \<Longrightarrow>
   onRightThumbstick s env (Some t) =
     Inr (translate s m (laser_forward env) (- axes_y t * (deltaTime env / 1000) * 3))"
  by (simp add: onRightThumbstick_def Let_def)

lemma onRightThumbstick_not_held:
  "selectedObject s = None \<or> (\<exists>m. selectedObject s = Some m \<and> parent (meshes s m) = None) \<Longrightarrow>
   onRightThumbstick s env component = Inr s"
  by (auto simp: onRightThumbstick_def)

lemma frame_release_held:
  assumes comp: "rightComponent s env ''xr-standard-trigger'' = Some c"
    and edge: "changes_pressed c" "\<not> pressed c"
    and sel: "selectedObject s = Some m"
  shows "processControllerInput s env =
           Inr (pulse (setParent (s\<lparr>laserPointer_color := Blue\<rparr>) m None) env (2 / 10) 50)"
proof -
  let ?s' = "pulse (setParent (s\<lparr>laserPointer_color := Blue\<rparr>) m None) env (2 / 10) 50"
  have t: "onRightTrigger s env (Some c) = Inr ?s'"
    using onRightTrigger_release[OF edge, of s env] sel by simp
  have "selectedObject ?s' = Some m" "parent (meshes ?s' m) = None"
    using sel by (simp_all add: setParent_def)
  then have u: "onRightThumbstick ?s' env (rightComponent ?s' env ''xr-standard-thumbstick'') = Inr ?s'"
    by (intro onRightThumbstick_not_held) blast
  show ?thesis
    using t u comp by (simp add: processControllerInput_def)
qed

lemma rightComponent_cong:
  "rightController s' = rightController s \<Longrightarrow> rightComponent s' env ident = rightComponent s env ident"
  by (simp add: rightComponent_def)

lemma setParent_fields [simp]:
  "selectedObject (setParent s m p) = selectedObject s"
  "rightController (setParent s m p) = rightController s"
  "laserPointer_color (setParent s m p) = laserPointer_color s"
  "scene_meshes (setParent s m p) = scene_meshes s"
  "haptics (setParent s m p) = haptics s"
  "edgesRendering (meshes (setParent s m p) k) = edgesRendering (meshes s k)"
  "isPickable (meshes (setParent s m p) k) = isPickable (meshes s k)"
  "absolutePosition (meshes (setParent s m p) k) = absolutePosition (meshes s k)"
  by (simp_all add: setParent_def)

lemma onControllerAdded_keeps [simp]:
  "selectedObject (onControllerAdded s src) = selectedObject s"
  "scene_meshes (onControllerAdded s src) = scene_meshes s"
  "edgesRendering (meshes (onControllerAdded s src) k) = edgesRendering (meshes s k)"
  "isPickable (meshes (onControllerAdded s src) k) = isPickable (meshes s k)"
  by (simp_all add: onControllerAdded_def)

lemma onControllerRemoved_keeps [simp]:
  "selectedObject (onControllerRemoved s src) = selectedObject s"
  "scene_meshes (onControllerRemoved s src) = scene_meshes s"
  "edgesRendering (meshes (onControllerRemoved s src) k) = edgesRendering (meshes s k)"
  "isPickable (meshes (onControllerRemoved s src) k) = isPickable (meshes s k)"
  by (simp_all add: onControllerRemoved_def)

lemma onRightTrigger_no_press_keeps:
  assumes r: "onRightTrigger s env component = Inr s'"
    and np: "case component of None \<Rightarrow> True | Some c \<Rightarrow> \<not> (changes_pressed c \<and> pressed c)"
  shows "selectedObject s' = selectedObject s \<and>
         (\<forall>k. edgesRendering (meshes s' k) = edgesRendering (meshes s k))"
proof (cases component)
  case None
  with r show ?thesis by (simp add: onRightTrigger_None)
next
  case (Some c)
  show ?thesis
  proof (cases "changes_pressed c")
    case False
    with r Some show ?thesis by (simp add: onRightTrigger_unchanged)
  next
    case True
    with np Some have rel: "\<not> pressed c" by simp
    from onRightTrigger_release[OF True rel, of s env] r Some
    show ?thesis
      by (cases "selectedObject s") auto
  qed
qed

lemma onRightThumbstick_keeps:
  assumes r: "onRightThumbstick s env component = Inr s'"
  shows "selectedObject s' = selectedObject s \<and>
         (\<forall>k. edgesRendering (meshes s' k) = edgesRendering (meshes s k))"
  using onRightThumbstick_cases[OF r] by auto

lemma step_no_press_keeps:
  assumes st: "step s e = Inr s'" and np: "\<not> pressFrame s e"
  shows "selectedObject s' = selectedObject s \<and>
         (\<forall>k. edgesRendering (meshes s' k) = edgesRendering (meshes s k))"
proof (cases e)
  case (ControllerAdded src)
  with st show ?thesis by auto
next
  case (ControllerRemoved src)
  with st show ?thesis by auto
next
  case (Render env)
  from st Render obtain s1 where
    t: "onRightTrigger s env (rightComponent s env ''xr-standard-trigger'') = Inr s1" and
    u: "onRightThumbstick s1 env (rightComponent s1 env ''xr-standard-thumbstick'') = Inr s'"
    by (auto simp: update_def processControllerInput_def split: sum.splits)
  from np Render have
    "case rightComponent s env ''xr-standard-trigger'' of
       None \<Rightarrow> True | Some c \<Rightarrow> \<not> (changes_pressed c \<and> pressed c)"
    by (simp split: option.splits)
  from onRightTrigger_no_press_keeps[OF t this] onRightThumbstick_keeps[OF u]
  show ?thesis by simp
qed

lemma pickWithRay_cong:
  "scene_meshes s' = scene_meshes s \<Longrightarrow>
   (\<And>k. isPickable (meshes s' k) = isPickable (meshes s k)) \<Longrightarrow>
   pickWithRay s' env ray = pickWithRay s env ray"
  by (simp add: pickWithRay_def)

lemma pickNearest_none:
  "(\<And>m. m \<in> set ms \<Longrightarrow> f m = None) \<Longrightarrow> pickNearest f len ms best = best"
  by (induction ms arbitrary: best) simp_all

lemma pickNearest_picked:
  "pickedMesh (pickNearest f len ms best) = Some m \<Longrightarrow> m \<in> set ms \<or> pickedMesh best = Some m"
proof (induction ms arbitrary: best)
  case Nil
  then show ?case by simp
next
  case (Cons k ms)
  show ?case
  proof (cases "f k")
    case None
    with Cons show ?thesis by auto
  next
    case (Some d)
    show ?thesis
    proof (cases "0 \<le> d \<and> d \<le> len \<and> (if hit best then d < distance best else True)")
      case True
      with Some Cons.prems
      have "pickedMesh (pickNearest f len ms \<lparr>hit = True, pickedMesh = Some k, distance = d\<rparr>) = Some m"
        by (auto split: if_splits)
      from Cons.IH[OF this] show ?thesis by auto
    next
      case False
      with Some Cons.prems have "pickedMesh (pickNearest f len ms best) = Some m"
        by (auto split: if_splits)
      from Cons.IH[OF this] show ?thesis by auto
    qed
  qed
qed

lemma pickWithRay_pickable:
  assumes "pickWithRay s env ray = Some p" "pickedMesh p = Some m"
  shows "isPickable (meshes s m)"
proof -
  from assms have
    "pickedMesh (pickNearest (intersects env ray) (ray_length ray)
        (filter (\<lambda>m. isPickable (meshes s m)) (scene_meshes s)) noHit) = Some m"
    by (auto simp: pickWithRay_def)
  from pickNearest_picked[OF this] show ?thesis
    by (auto simp: noHit_def)
qed

lemma pickWithRay_environment_only:
  assumes inv: "pickable_inv s"
    and env: "\<And>m d. intersects env ray m = Some d \<Longrightarrow> m \<in> {Ground, Skybox, LaserPointer}"
  shows "pickWithRay s env ray = Some noHit"
proof -
  have "intersects env ray m = None"
    if "m \<in> set (filter (\<lambda>m. isPickable (meshes s m)) (scene_meshes s))" for m
  proof (cases "intersects env ray m")
    case None
    then show ?thesis .
  next
    case (Some d)
    from env[OF Some] inv that show ?thesis
      by (auto simp: pickable_inv_def)
  qed
  then have "pickNearest (intersects env ray) (ray_length ray)
      (filter (\<lambda>m. isPickable (meshes s m)) (scene_meshes s)) noHit = noHit"
    by (rule pickNearest_none)
  then show ?thesis
    by (simp add: pickWithRay_def)
qed

lemma createScene_pickable_inv: "pickable_inv (createScene cubePosition)"
  by (simp add: pickable_inv_def createScene_def newMesh_def)

lemma deselect_isPickable [simp]:
  "isPickable (meshes (deselect s) k) = isPickable (meshes s k)"
  by (simp add: deselect_meshes split: option.splits)

lemma onRightTrigger_pickable_inv:
  assumes inv: "pickable_inv s" and r: "onRightTrigger s env component = Inr s'"
  shows "pickable_inv s'"
  using onRightTrigger_cases[OF r]
proof (elim disjE exE conjE)
  assume "s' = s"
  with inv show ?thesis by simp
next
  assume "s' = s\<lparr>laserPointer_color := Blue\<rparr>"
  with inv show ?thesis by (simp add: pickable_inv_def)
next
  fix m
  assume "s' = pulse (setParent (s\<lparr>laserPointer_color := Blue\<rparr>) m None) env (2 / 10) 50"
  with inv show ?thesis by (simp add: pickable_inv_def)
next
  assume "s' = deselect (s\<lparr>laserPointer_color := Green\<rparr>)"
  with inv show ?thesis by (simp add: pickable_inv_def)
next
  fix p m
  assume pick: "pickWithRay s env (Ray (pointer_position env) (pointer_forward env) 20) = Some p"
    "pickedMesh p = Some m" and s': "s' = grab s env m (distance p)"
  from pickWithRay_pickable[OF pick] have "isPickable (meshes s m)" .
  with inv s' show ?thesis by (simp add: pickable_inv_def grab_mesh_picked)
qed

lemma onRightThumbstick_pickable_inv:
  assumes inv: "pickable_inv s" and r: "onRightThumbstick s env component = Inr s'"
  shows "pickable_inv s'"
  using onRightThumbstick_cases[OF r] inv
  by (auto simp: pickable_inv_def)

lemma step_pickable_inv:
  assumes inv: "pickable_inv s" and st: "step s e = Inr s'"
  shows "pickable_inv s'"
proof (cases e)
  case (ControllerAdded src)
  with inv st show ?thesis by (auto simp: pickable_inv_def)
next
  case (ControllerRemoved src)
  with inv st show ?thesis by (auto simp: pickable_inv_def)
next
  case (Render env)
  from st Render obtain s1 where
    t: "onRightTrigger s env (rightComponent s env ''xr-standard-trigger'') = Inr s1" and
    u: "onRightThumbstick s1 env (rightComponent s1 env ''xr-standard-thumbstick'') = Inr s'"
    by (auto simp: update_def processControllerInput_def split: sum.splits)
  from onRightThumbstick_pickable_inv[OF onRightTrigger_pickable_inv[OF inv t] u]
  show ?thesis .
qed

lemma run_pickable_inv:
  "pickable_inv s \<Longrightarrow> run s evs = Inr s' \<Longrightarrow> pickable_inv s'"
proof (induction evs arbitrary: s)
  case Nil
  then show ?case by simp
next
  case (Cons e evs)
  then show ?case
    by (auto split: sum.splits dest: step_pickable_inv)
qed

lemma frame_press_environment_only:
  assumes inv: "pickable_inv s"
    and comp: "rightComponent s env ''xr-standard-trigger'' = Some c"
    and edge: "changes_pressed c" "pressed c"
    and env: "\<And>m d. intersects env (Ray (pointer_position env) (pointer_forward env) 20) m = Some d
                \<Longrightarrow> m \<in> {Ground, Skybox, LaserPointer}"
  shows "processControllerInput s env = Inr (deselect (s\<lparr>laserPointer_color := Green\<rparr>))"
proof -
  let ?s' = "deselect (s\<lparr>laserPointer_color := Green\<rparr>)"
  from rightComponent_SomeD[OF comp] obtain rc where rc: "rightController s = Some rc"
    by blast
  have pick: "pickWithRay s env (Ray (pointer_position env) (pointer_forward env) 20) = Some noHit"
    by (rule pickWithRay_environment_only[OF inv env])
  have nh: "\<not> hit noHit" by (simp add: noHit_def)
  have t: "onRightTrigger s env (Some c) = Inr ?s'"
    by (rule onRightTrigger_press_miss[OF edge rc pick nh])
  have u: "onRightThumbstick ?s' env (rightComponent ?s' env ''xr-standard-thumbstick'') = Inr ?s'"
    by (rule onRightThumbstick_not_held) simp
  show ?thesis
    using t u comp by (simp add: processControllerInput_def)
qed

subsection \<open>The example sessions evaluated\<close>

lemma connectedScene_rightController:
  "rightController connectedScene = Some rightSource"
  by (simp add: connectedScene_def onControllerAdded_def endsWith_def rightSource_def)

lemma rightComponent_exampleFrame:
  assumes "rightController s = Some rc"
  shows "rightComponent s (exampleFrame trigger thumbstick geometry) ''xr-standard-trigger'' = trigger"
    and "rightComponent s (exampleFrame trigger thumbstick geometry) ''xr-standard-thumbstick'' = thumbstick"
  using assms
  by (simp_all add: rightComponent_def exampleFrame_def getComponent_def split: option.splits)

lemmas rightComponent_connected = rightComponent_exampleFrame[OF connectedScene_rightController]

lemma pick_connected_onlyCube7:
  "pickWithRay connectedScene (exampleFrame trigger thumbstick (onlyCube 7 5))
     (Ray (Vector3 0 1 0) (Vector3 0 0 1) 20) =
   Some \<lparr>hit = True, pickedMesh = Some (Cube 7), distance = 5\<rparr>"
  by (simp add: pickWithRay_def connectedScene_def onControllerAdded_def endsWith_def rightSource_def
      createScene_def newMesh_def noHit_def exampleFrame_def onlyCube_def upt_rec)

lemma exampleFrame_fields [simp]:
  "pointer_position (exampleFrame trigger thumbstick geometry) = Vector3 0 1 0"
  "pointer_forward (exampleFrame trigger thumbstick geometry) = Vector3 0 0 1"
  "laser_forward (exampleFrame trigger thumbstick geometry) = Vector3 0 0 1"
  "deltaTime (exampleFrame trigger thumbstick geometry) = 20"
  by (simp_all add: exampleFrame_def)

lemma holding_rightController: "rightController holding = Some rightSource"
  by (simp add: holding_def connectedScene_rightController)

lemmas rightComponent_holding = rightComponent_exampleFrame[OF holding_rightController]

lemma holding_selected:
  "selectedObject holding = Some (Cube 7)"
  "parent (meshes holding (Cube 7)) = Some SelectionTransform"
  "edgesRendering (meshes holding (Cube 7))"
  by (simp_all add: holding_def grab_mesh_picked)

lemma holding_position: "absolutePosition (meshes holding (Cube 7)) = Vector3 7 1 5"
  by (simp add: holding_def grab_mesh_picked connectedScene_def onControllerAdded_def endsWith_def
      rightSource_def createScene_def newMesh_def exampleCubes_def)

lemma holding_haptics: "haptics holding = [(2 / 10, 50)]"
proof -
  have "motionController (exampleFrame (Some pressEdge) (Some (stick 0)) (onlyCube 7 5)) \<noteq> None"
    by (simp add: exampleFrame_def)
  then obtain mc where
    "motionController (exampleFrame (Some pressEdge) (Some (stick 0)) (onlyCube 7 5)) = Some mc"
    by blast
  from grab_haptics[OF connectedScene_rightController this] show ?thesis
    by (simp add: holding_def connectedScene_def onControllerAdded_def createScene_def)
qed

lemma connectedScene_fields:
  "selectedObject connectedScene = None"
  "haptics connectedScene = []"
  "laserPointer_color connectedScene = Yellow"
  by (simp_all add: connectedScene_def onControllerAdded_def createScene_def)

lemma step_ControllerAdded_rightSource:
  "onControllerAdded (createScene exampleCubes) rightSource = connectedScene"
  by (simp add: connectedScene_def)

lemma pick_connected_onlyEnvironment:
  "pickWithRay connectedScene (exampleFrame trigger thumbstick onlyEnvironment)
     (Ray (Vector3 0 1 0) (Vector3 0 0 1) 20) = Some noHit"
  by (simp add: pickWithRay_def connectedScene_def onControllerAdded_def endsWith_def rightSource_def
      createScene_def newMesh_def noHit_def exampleFrame_def onlyEnvironment_def upt_rec)

lemma trigger_connected_press_cube7:
  "onRightTrigger connectedScene (exampleFrame (Some pressEdge) thumbstick (onlyCube 7 5)) (Some pressEdge) =
     Inr holding"
proof -
  let ?env = "exampleFrame (Some pressEdge) thumbstick (onlyCube 7 5)"
  have edge: "changes_pressed pressEdge" "pressed pressEdge"
    by (simp_all add: pressEdge_def)
  have pick: "pickWithRay connectedScene ?env (Ray (pointer_position ?env) (pointer_forward ?env) 20) =
      Some \<lparr>hit = True, pickedMesh = Some (Cube 7), distance = 5\<rparr>"
    by (simp add: pick_connected_onlyCube7)
  have "onRightTrigger connectedScene ?env (Some pressEdge) = Inr (grab connectedScene ?env (Cube 7) 5)"
    using onRightTrigger_press_hit[OF edge connectedScene_rightController pick] by simp
  moreover have "grab connectedScene ?env (Cube 7) 5 = holding"
    by (simp add: holding_def grab_def pulse_def exampleFrame_def setParent_def
        enableEdgesRendering_def connectedScene_rightController)
  ultimately show ?thesis by simp
qed

lemma trigger_connected_press_miss:
  "onRightTrigger connectedScene (exampleFrame (Some pressEdge) thumbstick onlyEnvironment) (Some pressEdge) =
     Inr missed"
proof -
  let ?env = "exampleFrame (Some pressEdge) thumbstick onlyEnvironment"
  have edge: "changes_pressed pressEdge" "pressed pressEdge"
    by (simp_all add: pressEdge_def)
  have pick: "pickWithRay connectedScene ?env (Ray (pointer_position ?env) (pointer_forward ?env) 20) =
      Some noHit"
    by (simp add: pick_connected_onlyEnvironment)
  have "onRightTrigger connectedScene ?env (Some pressEdge) =
      Inr (deselect (connectedScene\<lparr>laserPointer_color := Green\<rparr>))"
    using onRightTrigger_press_miss[OF edge connectedScene_rightController pick] by (simp add: noHit_def)
  moreover have "deselect (connectedScene\<lparr>laserPointer_color := Green\<rparr>) = missed"
    by (simp add: deselect_def missed_def connectedScene_fields)
  ultimately show ?thesis by simp
qed

lemma missed_fields:
  "selectedObject missed = None"
  "rightController missed = Some rightSource"
  "laserPointer_color missed = Green"
  by (simp_all add: missed_def connectedScene_fields connectedScene_rightController)

lemmas rightComponent_missed = rightComponent_exampleFrame[OF missed_fields(2)]

lemma frame_press_cube7:
  "processControllerInput connectedScene (exampleFrame (Some pressEdge) (Some (stick 0)) (onlyCube 7 5)) =
     Inr holding"
proof -
  let ?press = "exampleFrame (Some pressEdge) (Some (stick 0)) (onlyCube 7 5)"
  have a0: "axes_y (stick 0) = 0" by (simp add: stick_def)
  have u: "onRightThumbstick holding ?press (Some (stick 0)) = Inr holding"
    using onRightThumbstick_held[OF holding_selected(1,2), of ?press "stick 0"]
    by (simp add: a0 translate_zero)
  show ?thesis
    by (simp add: processControllerInput_def rightComponent_connected rightComponent_holding
        trigger_connected_press_cube7 u)
qed

lemma frame_release_holding:
  "processControllerInput holding (exampleFrame (Some releaseEdge) (Some (stick 0)) (onlyCube 7 5)) =
     Inr released"
proof -
  let ?release = "exampleFrame (Some releaseEdge) (Some (stick 0)) (onlyCube 7 5)"
  have edge: "changes_pressed releaseEdge" "\<not> pressed releaseEdge"
    by (simp_all add: releaseEdge_def)
  have comp: "rightComponent holding ?release ''xr-standard-trigger'' = Some releaseEdge"
    by (simp add: rightComponent_holding)
  show ?thesis
    unfolding released_def by (rule frame_release_held[OF comp edge holding_selected(1)])
qed

lemma run_session2: "run (createScene exampleCubes) session2 = Inr released"
  by (simp add: session2_def step_ControllerAdded_rightSource update_def frame_press_cube7
      frame_release_holding)

lemma holding_scene:
  "scene_meshes holding = scene_meshes connectedScene"
  "isPickable (meshes holding k) = isPickable (meshes connectedScene k)"
  by (simp_all add: holding_def grab_mesh_picked)

lemma released_fields:
  "selectedObject released = Some (Cube 7)"
  "edgesRendering (meshes released (Cube 7))"
  "rightController released = Some rightSource"
  "scene_meshes released = scene_meshes connectedScene"
  "isPickable (meshes released k) = isPickable (meshes connectedScene k)"
  by (simp_all add: released_def holding_selected holding_rightController holding_scene)

lemmas rightComponent_released = rightComponent_exampleFrame[OF released_fields(3)]

lemma pick_released_onlyEnvironment:
  "pickWithRay released (exampleFrame trigger thumbstick onlyEnvironment)
     (Ray (Vector3 0 1 0) (Vector3 0 0 1) 20) = Some noHit"
  using pickWithRay_cong[OF released_fields(4,5)] pick_connected_onlyEnvironment
  by simp

subsection \<open>C1: at most one object is selected\<close>

text \<open>
  Claim C1. In every state reached from the created scene by any sequence of controller
  events and frames, a mesh whose highlight outline is on is the selected object, so at
  most one object is selected and outlined. Moreover, when a trigger press in such a
  state ends with another object (or none) in the selection slot, the outline of the
  previously selected object has been turned off.
\<close>

theorem at_most_one_selected:
  assumes "run (createScene cubePosition) evs = Inr s"
  shows "(\<forall>m. edgesRendering (meshes s m) \<longrightarrow> selectedObject s = Some m) \<and>
         (\<forall>env c s' old. selectedObject s = Some old \<and> changes_pressed c \<and> pressed c \<and>
             onRightTrigger s env (Some c) = Inr s' \<and> selectedObject s' \<noteq> Some old
             \<longrightarrow> \<not> edgesRendering (meshes s' old))"
proof -
  have "highlight_inv s"
    using run_highlight_inv[OF createScene_highlight_inv assms] .
  then show ?thesis
    using press_drops_old_highlight by (auto simp: highlight_inv_def)
qed

theorem at_most_one_selected_witness:
  "case run (createScene exampleCubes) session1 of
     Inl e \<Rightarrow> False
   | Inr s \<Rightarrow> selectedObject s = Some (Cube 3) \<and> edgesRendering (meshes s (Cube 3)) \<and>
              \<not> edgesRendering (meshes s (Cube 7))"
proof -
  obtain s where r: "run (createScene exampleCubes) session1 = Inr s"
    and sel: "selectedObject s = Some (Cube 3)" and hl: "edgesRendering (meshes s (Cube 3))"
    by (simp add: model_defs example_defs upt_rec)
  from at_most_one_selected[OF r] sel have "\<not> edgesRendering (meshes s (Cube 7))"
    by auto
  with r sel hl show ?thesis by simp
qed

subsection \<open>C2: a press that hits an object grabs it\<close>

text \<open>
  Claim C2. On a press edge of the right trigger, if the ray cast from the pointer's
  position along its forward direction with length 20 reports a hit with mesh \<open>m\<close> at
  distance \<open>d\<close>, then \<open>onRightTrigger\<close> returns a state in which \<open>m\<close> is the selected
  object, its outline is on, the selection transform is at \<open>(0, 0, d)\<close>, \<open>m\<close> is
  parented to the selection transform and one haptic pulse has been sent.
\<close>

theorem press_hit_selects:
  assumes comp: "rightComponent s env ''xr-standard-trigger'' = Some c"
    and edge: "changes_pressed c" "pressed c"
    and pick: "pickWithRay s env (Ray (pointer_position env) (pointer_forward env) 20) = Some p"
    and hit: "hit p" "pickedMesh p = Some m" "distance p = d"
  shows "\<exists>s'. onRightTrigger s env (Some c) = Inr s' \<and>
           selectedObject s' = Some m \<and>
           edgesRendering (meshes s' m) \<and>
           selectionTransform_position s' = Vector3 0 0 d \<and>
           parent (meshes s' m) = Some SelectionTransform \<and>
           haptics s' = haptics s @ [(2 / 10, 50)]"
proof -
  from rightComponent_SomeD[OF comp] obtain rc mc where
    rc: "rightController s = Some rc" and mc: "motionController env = Some mc"
    by blast
  have "onRightTrigger s env (Some c) = Inr (grab s env m d)"
    using onRightTrigger_press_hit[OF edge rc pick hit(1,2)] hit(3) by simp
  then show ?thesis
    by (simp add: grab_mesh_picked grab_haptics[OF rc mc])
qed

theorem press_hit_selects_witness:
  "case onRightTrigger connectedScene (exampleFrame (Some pressEdge) None (onlyCube 7 5)) (Some pressEdge) of
     Inl e \<Rightarrow> False
   | Inr s' \<Rightarrow>
       selectedObject s' = Some (Cube 7) \<and> edgesRendering (meshes s' (Cube 7)) \<and>
       selectionTransform_position s' = Vector3 0 0 5 \<and>
       parent (meshes s' (Cube 7)) = Some SelectionTransform \<and>
       haptics s' = [(2 / 10, 50)]"
proof -
  let ?env = "exampleFrame (Some pressEdge) None (onlyCube 7 5)"
  have comp: "rightComponent connectedScene ?env ''xr-standard-trigger'' = Some pressEdge"
    by (simp add: rightComponent_connected)
  have edge: "changes_pressed pressEdge" "pressed pressEdge"
    by (simp_all add: pressEdge_def)
  have pick: "pickWithRay connectedScene ?env (Ray (pointer_position ?env) (pointer_forward ?env) 20) =
      Some \<lparr>hit = True, pickedMesh = Some (Cube 7), distance = 5\<rparr>"
    by (simp add: pick_connected_onlyCube7)
  have h0: "haptics connectedScene = []"
    by (simp add: connectedScene_def onControllerAdded_def createScene_def)
  from press_hit_selects[OF comp edge pick, of "Cube 7" 5] h0
  show ?thesis by auto
qed

subsection \<open>C3: the thumbstick reels the held object along the pointer\<close>

text \<open>
  Claim C3. In a frame in which an object is held (selected and parented to the
  selection transform) and the thumbstick reports the axis value \<open>a\<close>, the thumbstick
  handler moves the world position of the held object by the laser pointer's forward
  axis scaled by \<open>- a * (deltaTime / 1000) * 3\<close> and leaves every other mesh alone.
  With \<open>a = 0\<close> the state is unchanged; with \<open>a = 1\<close>, a unit forward axis and a
  non-negative frame time the displacement is the forward axis scaled by
  \<open>- (3 * seconds)\<close>, of length \<open>3 * seconds\<close>.
\<close>

theorem thumbstick_reel:
  assumes held: "selectedObject s = Some m" "parent (meshes s m) = Some SelectionTransform"
    and axis: "axes_y t = a"
  shows "\<exists>s'. onRightThumbstick s env (Some t) = Inr s' \<and>
           absolutePosition (meshes s' m) =
             Vector3_add (absolutePosition (meshes s m))
               (Vector3_scale (laser_forward env) (- a * (deltaTime env / 1000) * 3)) \<and>
           (\<forall>k. k \<noteq> m \<longrightarrow> meshes s' k = meshes s k) \<and>
           (a = 0 \<longrightarrow> s' = s) \<and>
           (a = 1 \<and> 0 \<le> deltaTime env \<and> Vector3_length (laser_forward env) = 1 \<longrightarrow>
              Vector3_scale (laser_forward env) (- a * (deltaTime env / 1000) * 3) =
                Vector3_scale (laser_forward env) (- (3 * (deltaTime env / 1000))) \<and>
              Vector3_length (Vector3_scale (laser_forward env) (- a * (deltaTime env / 1000) * 3)) =
                3 * (deltaTime env / 1000))"
proof -
  let ?d = "- a * (deltaTime env / 1000) * 3"
  have r: "onRightThumbstick s env (Some t) = Inr (translate s m (laser_forward env) ?d)"
    using onRightThumbstick_held[OF held] axis by simp
  have others: "\<forall>k. k \<noteq> m \<longrightarrow> meshes (translate s m (laser_forward env) ?d) k = meshes s k"
    by (simp add: translate_def)
  have zero: "a = 0 \<longrightarrow> translate s m (laser_forward env) ?d = s"
    by (simp add: translate_zero)
  have one: "a = 1 \<and> 0 \<le> deltaTime env \<and> Vector3_length (laser_forward env) = 1 \<longrightarrow>
      Vector3_scale (laser_forward env) ?d =
        Vector3_scale (laser_forward env) (- (3 * (deltaTime env / 1000))) \<and>
      Vector3_length (Vector3_scale (laser_forward env) ?d) = 3 * (deltaTime env / 1000)"
  proof (intro impI, elim conjE)
    assume a1: "a = 1" and dt: "0 \<le> deltaTime env"
      and unit: "Vector3_length (laser_forward env) = 1"
    have d: "?d = - (3 * (deltaTime env / 1000))"
      using a1 by (simp add: algebra_simps)
    have "\<bar>- (3 * (deltaTime env / 1000))\<bar> = 3 * (deltaTime env / 1000)"
      using dt by simp
    then have "\<bar>?d\<bar> = 3 * (deltaTime env / 1000)"
      by (simp only: d)
    with d unit show "Vector3_scale (laser_forward env) ?d =
        Vector3_scale (laser_forward env) (- (3 * (deltaTime env / 1000))) \<and>
      Vector3_length (Vector3_scale (laser_forward env) ?d) = 3 * (deltaTime env / 1000)"
      by (simp only: Vector3_length_scale) simp
  qed
  have pos: "absolutePosition (meshes (translate s m (laser_forward env) ?d) m) =
      Vector3_add (absolutePosition (meshes s m)) (Vector3_scale (laser_forward env) ?d)"
    by (simp only: translate_position refl if_True)
  show ?thesis
    by (rule exI[where x = "translate s m (laser_forward env) ?d"])
       (intro conjI r pos others zero one)
qed

theorem thumbstick_reel_witness:
  "(case onRightThumbstick holding (exampleFrame None (Some (stick 1)) (onlyCube 7 5)) (Some (stick 1)) of
      Inl e \<Rightarrow> False
    | Inr s' \<Rightarrow> absolutePosition (meshes s' (Cube 7)) = Vector3 7 1 (5 - 3 / 50)) \<and>
   Vector3_length (Vector3_scale (Vector3 0 0 1) (- 1 * (20 / 1000) * 3)) = 3 / 50 \<and>
   onRightThumbstick holding (exampleFrame None (Some (stick 0)) (onlyCube 7 5)) (Some (stick 0)) =
     Inr holding"
proof -
  let ?env1 = "exampleFrame None (Some (stick 1)) (onlyCube 7 5)"
  let ?env0 = "exampleFrame None (Some (stick 0)) (onlyCube 7 5)"
  have a1: "axes_y (stick 1) = 1" and a0: "axes_y (stick 0) = 0"
    by (simp_all add: stick_def)
  have unit: "Vector3_length (Vector3 0 0 1) = 1"
    by (simp add: Vector3_length_def)
  from thumbstick_reel[OF holding_selected(1,2) a1, of ?env1] obtain s1 where
    r1: "onRightThumbstick holding ?env1 (Some (stick 1)) = Inr s1" and
    p1: "absolutePosition (meshes s1 (Cube 7)) =
           Vector3_add (absolutePosition (meshes holding (Cube 7)))
             (Vector3_scale (laser_forward ?env1) (- 1 * (deltaTime ?env1 / 1000) * 3))" and
    l1: "1 = (1::real) \<and> 0 \<le> deltaTime ?env1 \<and> Vector3_length (laser_forward ?env1) = 1 \<longrightarrow>
           Vector3_scale (laser_forward ?env1) (- 1 * (deltaTime ?env1 / 1000) * 3) =
             Vector3_scale (laser_forward ?env1) (- (3 * (deltaTime ?env1 / 1000))) \<and>
           Vector3_length (Vector3_scale (laser_forward ?env1) (- 1 * (deltaTime ?env1 / 1000) * 3)) =
             3 * (deltaTime ?env1 / 1000)"
    by blast
  from p1 have pos: "absolutePosition (meshes s1 (Cube 7)) = Vector3 7 1 (5 - 3 / 50)"
    by (simp add: holding_position Vector3_add_def Vector3_scale_def)
  from l1 unit have len: "Vector3_length (Vector3_scale (Vector3 0 0 1) (- 1 * (20 / 1000) * 3)) = 3 / 50"
    by simp
  from thumbstick_reel[OF holding_selected(1,2) a0, of ?env0] have
    r0: "onRightThumbstick holding ?env0 (Some (stick 0)) = Inr holding"
    by auto
  from r1 pos len r0 show ?thesis by simp
qed

subsection \<open>C4: a release un-parents the held object\<close>

text \<open>
  Claim C4. On a release edge of the right trigger while an object is held, the trigger
  handler (and the whole frame, whatever the thumbstick component is) returns a state
  in which the object has no parent, its world position is the one it had, and one
  haptic pulse has been sent.
\<close>

theorem release_unparents:
  assumes comp: "rightComponent s env ''xr-standard-trigger'' = Some c"
    and edge: "changes_pressed c" "\<not> pressed c"
    and held: "selectedObject s = Some m" "parent (meshes s m) = Some SelectionTransform"
  shows "\<exists>s'. onRightTrigger s env (Some c) = Inr s' \<and>
           processControllerInput s env = Inr s' \<and>
           parent (meshes s' m) = None \<and>
           absolutePosition (meshes s' m) = absolutePosition (meshes s m) \<and>
           haptics s' = haptics s @ [(2 / 10, 50)]"
proof -
  let ?s' = "pulse (setParent (s\<lparr>laserPointer_color := Blue\<rparr>) m None) env (2 / 10) 50"
  from rightComponent_SomeD[OF comp] obtain rc mc where
    rc: "rightController s = Some rc" and mc: "motionController env = Some mc"
    by blast
  have t: "onRightTrigger s env (Some c) = Inr ?s'"
    using onRightTrigger_release[OF edge, of s env] held(1) by simp
  have par: "parent (meshes ?s' m) = None"
    by (simp add: setParent_def)
  have sel: "selectedObject ?s' = Some m"
    using held(1) by (simp add: setParent_def)
  have u: "onRightThumbstick ?s' env (rightComponent ?s' env ''xr-standard-thumbstick'') = Inr ?s'"
    by (rule onRightThumbstick_not_held) (use sel par in blast)
  have p: "processControllerInput s env = Inr ?s'"
    using t u comp by (simp add: processControllerInput_def)
  have pos: "absolutePosition (meshes ?s' m) = absolutePosition (meshes s m)"
    by (simp add: setParent_def)
  have hap: "haptics ?s' = haptics s @ [(2 / 10, 50)]"
    using rc mc by (simp add: pulse_def setParent_def)
  show ?thesis
    by (rule exI[where x = ?s']) (intro conjI t p par pos hap)
qed

theorem release_unparents_witness:
  "case processControllerInput holding (exampleFrame (Some releaseEdge) None (onlyCube 7 5)) of
     Inl e \<Rightarrow> False
   | Inr s' \<Rightarrow> parent (meshes s' (Cube 7)) = None \<and>
       absolutePosition (meshes s' (Cube 7)) = Vector3 7 1 5 \<and>
       haptics s' = [(2 / 10, 50), (2 / 10, 50)]"
proof -
  let ?env = "exampleFrame (Some releaseEdge) None (onlyCube 7 5)"
  have comp: "rightComponent holding ?env ''xr-standard-trigger'' = Some releaseEdge"
    by (simp add: rightComponent_holding)
  have edge: "changes_pressed releaseEdge" "\<not> pressed releaseEdge"
    by (simp_all add: releaseEdge_def)
  from release_unparents[OF comp edge holding_selected(1,2)]
  show ?thesis by (auto simp: holding_position holding_haptics)
qed

subsection \<open>C5: a missing thumbstick component while an object is held\<close>

text \<open>
  Claim C5 says that a missing controller or component is skipped without a failure,
  also in the thumbstick handler while an object is held. The trigger handler does
  skip (\<open>onRightTrigger_None\<close>), but the thumbstick handler reads the axes of its
  component without a check: with a right controller that has a trigger and no
  thumbstick, the first press that grabs a cube ends the frame with a TypeError, and so
  does any later frame while the cube is held.
\<close>

theorem thumbstick_missing_while_held_fails:
  "run (createScene exampleCubes) session3 = Inl TypeError \<and>
   selectedObject holding = Some (Cube 7) \<and>
   parent (meshes holding (Cube 7)) = Some SelectionTransform \<and>
   rightComponent holding (exampleFrame None None (onlyCube 7 5)) ''xr-standard-thumbstick'' = None \<and>
   processControllerInput holding (exampleFrame None None (onlyCube 7 5)) = Inl TypeError"
proof -
  let ?env = "exampleFrame (Some pressEdge) None (onlyCube 7 5)"
  have u: "onRightThumbstick holding env None = Inl TypeError" for env
    by (simp add: onRightThumbstick_def holding_selected)
  have "processControllerInput connectedScene ?env = Inl TypeError"
    by (simp add: processControllerInput_def rightComponent_connected rightComponent_holding
        trigger_connected_press_cube7 u)
  then have r: "run (createScene exampleCubes) session3 = Inl TypeError"
    by (simp add: session3_def step_ControllerAdded_rightSource update_def)
  have p: "processControllerInput holding (exampleFrame None None (onlyCube 7 5)) = Inl TypeError"
    by (simp add: processControllerInput_def rightComponent_holding onRightTrigger_None u)
  from r p show ?thesis
    by (simp add: holding_selected rightComponent_holding)
qed

subsection \<open>C6: a release with nothing selected\<close>

text \<open>
  Claim C6, as amended. On a release edge of the right trigger with no selected object
  the frame succeeds and changes nothing but the colour of the laser pointer: the
  selection, the selection transform, every mesh (parents, outlines, positions) and
  the haptic log are as before.
\<close>

theorem release_without_selection:
  assumes comp: "rightComponent s env ''xr-standard-trigger'' = Some c"
    and edge: "changes_pressed c" "\<not> pressed c"
    and none: "selectedObject s = None"
  shows "\<exists>s'. processControllerInput s env = Inr s' \<and>
           s'\<lparr>laserPointer_color := laserPointer_color s\<rparr> = s"
proof -
  let ?s' = "s\<lparr>laserPointer_color := Blue\<rparr>"
  have t: "onRightTrigger s env (Some c) = Inr ?s'"
    using onRightTrigger_release[OF edge, of s env] none by simp
  have u: "onRightThumbstick ?s' env (rightComponent ?s' env ''xr-standard-thumbstick'') = Inr ?s'"
    by (rule onRightThumbstick_not_held) (simp add: none)
  have "processControllerInput s env = Inr ?s'"
    using t u comp by (simp add: processControllerInput_def)
  then show ?thesis by simp
qed

theorem release_without_selection_witness:
  "case processControllerInput missed (exampleFrame (Some releaseEdge) None onlyEnvironment) of
     Inl e \<Rightarrow> False
   | Inr s' \<Rightarrow> s'\<lparr>laserPointer_color := Green\<rparr> = missed"
proof -
  let ?env = "exampleFrame (Some releaseEdge) None onlyEnvironment"
  have comp: "rightComponent missed ?env ''xr-standard-trigger'' = Some releaseEdge"
    by (simp add: rightComponent_missed)
  have edge: "changes_pressed releaseEdge" "\<not> pressed releaseEdge"
    by (simp_all add: releaseEdge_def)
  from release_without_selection[OF comp edge missed_fields(1)]
  show ?thesis by (auto simp: missed_fields)
qed

text \<open>
  Claim C6 as stated fails: after a press that hits nothing the pointer is green and
  nothing is selected; the release that follows changes the state, since it sets the
  colour of the laser pointer.
\<close>

theorem release_changes_pointer_counterexample:
  "processControllerInput connectedScene (exampleFrame (Some pressEdge) None onlyEnvironment) = Inr missed \<and>
   selectedObject missed = None \<and>
   rightComponent missed (exampleFrame (Some releaseEdge) None onlyEnvironment) ''xr-standard-trigger'' =
     Some releaseEdge \<and>
   changes_pressed releaseEdge \<and> \<not> pressed releaseEdge \<and>
   processControllerInput missed (exampleFrame (Some releaseEdge) None onlyEnvironment) =
     Inr (missed\<lparr>laserPointer_color := Blue\<rparr>) \<and>
   missed\<lparr>laserPointer_color := Blue\<rparr> \<noteq> missed"
proof -
  have u: "onRightThumbstick s env c = Inr s" if "selectedObject s = None" for s env c
    using that by (simp add: onRightThumbstick_def)
  have 1: "processControllerInput connectedScene (exampleFrame (Some pressEdge) None onlyEnvironment) = Inr missed"
    by (simp add: processControllerInput_def rightComponent_connected trigger_connected_press_miss
        u missed_fields)
  have edge: "changes_pressed releaseEdge" "\<not> pressed releaseEdge"
    by (simp_all add: releaseEdge_def)
  have 2: "processControllerInput missed (exampleFrame (Some releaseEdge) None onlyEnvironment) =
     Inr (missed\<lparr>laserPointer_color := Blue\<rparr>)"
    using onRightTrigger_release[OF edge, of missed]
    by (simp add: processControllerInput_def rightComponent_missed missed_fields u)
  have "laserPointer_color (missed\<lparr>laserPointer_color := Blue\<rparr>) \<noteq> laserPointer_color missed"
    by (simp add: missed_fields Blue_def Green_def)
  then have 3: "missed\<lparr>laserPointer_color := Blue\<rparr> \<noteq> missed"
    by metis
  from 1 2 3 edge show ?thesis
    by (simp add: missed_fields rightComponent_missed)
qed

subsection \<open>C7: the pointer colour after a release\<close>

text \<open>
  Claim C7 says that a release resets the pointer to the colour it had before any
  press. The created pointer is yellow, and after a press and a release it is blue.
\<close>

theorem release_color_differs_from_initial:
  "laserPointer_color (createScene exampleCubes) = Yellow \<and>
   (case run (createScene exampleCubes) session2 of
      Inl e \<Rightarrow> False
    | Inr s \<Rightarrow> laserPointer_color s = Blue) \<and>
   Blue \<noteq> Yellow"
proof -
  have y: "laserPointer_color (createScene exampleCubes) = Yellow"
    by (simp add: createScene_def)
  have b: "laserPointer_color released = Blue"
    by (simp add: released_def)
  have "Blue \<noteq> Yellow"
    by (simp add: Blue_def Yellow_def)
  with y b show ?thesis
    by (simp add: run_session2)
qed

subsection \<open>C8: the trigger is handled before the thumbstick\<close>

text \<open>
  Claim C8. \<open>processControllerInput\<close> runs the trigger handler first and the thumbstick
  handler on the state it returns. So in a frame with a press edge whose ray hits \<open>m\<close>
  and a thumbstick component \<open>t\<close>, the frame selects \<open>m\<close> and moves it by the laser
  pointer's forward axis scaled by \<open>- axes_y t * (deltaTime / 1000) * 3\<close>; the
  thumbstick handler on the state before the press, with nothing selected, would move
  nothing.
\<close>

theorem trigger_before_thumbstick:
  assumes comp: "rightComponent s env ''xr-standard-trigger'' = Some c"
    and edge: "changes_pressed c" "pressed c"
    and pick: "pickWithRay s env (Ray (pointer_position env) (pointer_forward env) 20) = Some p"
    and hit: "hit p" "pickedMesh p = Some m"
    and thumb: "rightComponent s env ''xr-standard-thumbstick'' = Some t"
  shows "\<exists>s1 s'. onRightTrigger s env (Some c) = Inr s1 \<and>
           selectedObject s1 = Some m \<and>
           onRightThumbstick s1 env (Some t) = Inr s' \<and>
           processControllerInput s env = Inr s' \<and>
           selectedObject s' = Some m \<and>
           absolutePosition (meshes s' m) =
             Vector3_add (absolutePosition (meshes s m))
               (Vector3_scale (laser_forward env) (- axes_y t * (deltaTime env / 1000) * 3)) \<and>
           (selectedObject s = None \<longrightarrow> onRightThumbstick s env (Some t) = Inr s)"
proof -
  let ?s1 = "grab s env m (distance p)"
  let ?d = "- axes_y t * (deltaTime env / 1000) * 3"
  let ?s' = "translate ?s1 m (laser_forward env) ?d"
  from rightComponent_SomeD[OF comp] obtain rc where rc: "rightController s = Some rc"
    by blast
  have t: "onRightTrigger s env (Some c) = Inr ?s1"
    by (rule onRightTrigger_press_hit[OF edge rc pick hit])
  have sel1: "selectedObject ?s1 = Some m"
    by simp
  have u: "onRightThumbstick ?s1 env (Some t) = Inr ?s'"
    by (rule onRightThumbstick_held[OF sel1 grab_mesh_picked(2)])
  have thumb1: "rightComponent ?s1 env ''xr-standard-thumbstick'' = Some t"
    using thumb rightComponent_cong[of ?s1 s env "''xr-standard-thumbstick''"] by simp
  have p: "processControllerInput s env = Inr ?s'"
    by (simp add: processControllerInput_def comp t thumb1 u)
  have sel': "selectedObject ?s' = Some m"
    by simp
  have pos: "absolutePosition (meshes ?s' m) =
      Vector3_add (absolutePosition (meshes s m)) (Vector3_scale (laser_forward env) ?d)"
    by (simp only: translate_position refl if_True grab_mesh_picked(3))
  have other: "selectedObject s = None \<longrightarrow> onRightThumbstick s env (Some t) = Inr s"
    by (simp add: onRightThumbstick_not_held)
  show ?thesis
    by (rule exI[where x = ?s1], rule exI[where x = ?s'])
       (intro conjI t sel1 u p sel' pos other)
qed

theorem trigger_before_thumbstick_witness:
  "case processControllerInput connectedScene (exampleFrame (Some pressEdge) (Some (stick 1)) (onlyCube 7 5)) of
     Inl e \<Rightarrow> False
   | Inr s' \<Rightarrow> selectedObject s' = Some (Cube 7) \<and>
       absolutePosition (meshes s' (Cube 7)) = Vector3 7 1 (5 - 3 / 50)"
proof -
  let ?env = "exampleFrame (Some pressEdge) (Some (stick 1)) (onlyCube 7 5)"
  have comp: "rightComponent connectedScene ?env ''xr-standard-trigger'' = Some pressEdge"
    and thumb: "rightComponent connectedScene ?env ''xr-standard-thumbstick'' = Some (stick 1)"
    by (simp_all add: rightComponent_connected)
  have edge: "changes_pressed pressEdge" "pressed pressEdge"
    by (simp_all add: pressEdge_def)
  have pick: "pickWithRay connectedScene ?env (Ray (pointer_position ?env) (pointer_forward ?env) 20) =
      Some \<lparr>hit = True, pickedMesh = Some (Cube 7), distance = 5\<rparr>"
    by (simp add: pick_connected_onlyCube7)
  have pos0: "absolutePosition (meshes connectedScene (Cube 7)) = Vector3 7 1 5"
    by (simp add: connectedScene_def onControllerAdded_def endsWith_def rightSource_def
        createScene_def newMesh_def exampleCubes_def)
  from trigger_before_thumbstick[OF comp edge pick _ _ thumb, of "Cube 7"] obtain s' where
    "processControllerInput connectedScene ?env = Inr s'" "selectedObject s' = Some (Cube 7)"
    "absolutePosition (meshes s' (Cube 7)) =
       Vector3_add (absolutePosition (meshes connectedScene (Cube 7)))
         (Vector3_scale (laser_forward ?env) (- axes_y (stick 1) * (deltaTime ?env / 1000) * 3))"
    by auto
  then show ?thesis
    by (simp add: pos0 stick_def Vector3_add_def Vector3_scale_def)
qed

subsection \<open>C9: a release keeps the selection\<close>

text \<open>
  Claim C9. Let \<open>m\<close> be selected and outlined. A release edge of the trigger leaves \<open>m\<close>
  selected and outlined; so does every event that is not a frame with a press edge
  (controller added or removed, frames without a press edge). A press edge replaces
  the selection: either nothing is hit, and then nothing is selected and the outline
  of \<open>m\<close> is off, or a mesh \<open>m'\<close> is hit and selected, and then the outline of \<open>m\<close> is
  off unless \<open>m'\<close> is \<open>m\<close> itself.
\<close>

theorem release_keeps_selection:
  assumes sel: "selectedObject s = Some m" and hl: "edgesRendering (meshes s m)"
  shows "(\<forall>env c. changes_pressed c \<and> \<not> pressed c \<longrightarrow>
            (\<exists>s'. onRightTrigger s env (Some c) = Inr s' \<and>
                  selectedObject s' = Some m \<and> edgesRendering (meshes s' m))) \<and>
         (\<forall>e s'. step s e = Inr s' \<and> \<not> pressFrame s e \<longrightarrow>
            selectedObject s' = Some m \<and> edgesRendering (meshes s' m)) \<and>
         (\<forall>env c s'. changes_pressed c \<and> pressed c \<and> onRightTrigger s env (Some c) = Inr s' \<longrightarrow>
            (selectedObject s' = None \<and> \<not> edgesRendering (meshes s' m)) \<or>
            (\<exists>p m'. pickWithRay s env (Ray (pointer_position env) (pointer_forward env) 20) = Some p \<and>
               hit p \<and> pickedMesh p = Some m' \<and> selectedObject s' = Some m' \<and>
               (m' \<noteq> m \<longrightarrow> \<not> edgesRendering (meshes s' m))))"
proof (intro conjI allI impI)
  fix env and c :: Component
  assume "changes_pressed c \<and> \<not> pressed c"
  then have edge: "changes_pressed c" "\<not> pressed c" by simp_all
  let ?s' = "pulse (setParent (s\<lparr>laserPointer_color := Blue\<rparr>) m None) env (2 / 10) 50"
  have "onRightTrigger s env (Some c) = Inr ?s'"
    using onRightTrigger_release[OF edge, of s env] sel by simp
  moreover have "selectedObject ?s' = Some m" "edgesRendering (meshes ?s' m)"
    using sel hl by simp_all
  ultimately show "\<exists>s'. onRightTrigger s env (Some c) = Inr s' \<and>
      selectedObject s' = Some m \<and> edgesRendering (meshes s' m)"
    by blast
next
  fix e s'
  assume a: "step s e = Inr s' \<and> \<not> pressFrame s e"
  then have "step s e = Inr s'" "\<not> pressFrame s e" by simp_all
  from step_no_press_keeps[OF this] sel hl
  show "selectedObject s' = Some m" "edgesRendering (meshes s' m)" by simp_all
next
  fix env s' and c :: Component
  assume a: "changes_pressed c \<and> pressed c \<and> onRightTrigger s env (Some c) = Inr s'"
  then have edge: "changes_pressed c" "pressed c"
    and r: "onRightTrigger s env (Some c) = Inr s'" by simp_all
  from onRightTrigger_press_cases[OF edge r]
  show "(selectedObject s' = None \<and> \<not> edgesRendering (meshes s' m)) \<or>
        (\<exists>p m'. pickWithRay s env (Ray (pointer_position env) (pointer_forward env) 20) = Some p \<and>
           hit p \<and> pickedMesh p = Some m' \<and> selectedObject s' = Some m' \<and>
           (m' \<noteq> m \<longrightarrow> \<not> edgesRendering (meshes s' m)))"
  proof (elim disjE exE conjE)
    assume "s' = deselect (s\<lparr>laserPointer_color := Green\<rparr>)"
    with sel have "selectedObject s' = None \<and> \<not> edgesRendering (meshes s' m)"
      by (simp add: deselect_meshes)
    then show ?thesis by blast
  next
    fix p m'
    assume p: "pickWithRay s env (Ray (pointer_position env) (pointer_forward env) 20) = Some p"
      "hit p" "pickedMesh p = Some m'" and s': "s' = grab s env m' (distance p)"
    from s' sel have "selectedObject s' = Some m'"
      "m' \<noteq> m \<longrightarrow> \<not> edgesRendering (meshes s' m)"
      by (simp_all add: grab_meshes deselect_meshes)
    with p show ?thesis by blast
  qed
qed

theorem release_keeps_selection_witness:
  "(case onRightTrigger holding (exampleFrame (Some releaseEdge) (Some (stick 0)) (onlyCube 7 5))
           (Some releaseEdge) of
      Inl e \<Rightarrow> False
    | Inr s' \<Rightarrow> selectedObject s' = Some (Cube 7) \<and> edgesRendering (meshes s' (Cube 7))) \<and>
   (case step released (ControllerRemoved rightSource) of
      Inl e \<Rightarrow> False
    | Inr s' \<Rightarrow> selectedObject s' = Some (Cube 7) \<and> edgesRendering (meshes s' (Cube 7))) \<and>
   (case onRightTrigger released (exampleFrame (Some pressEdge) (Some (stick 0)) onlyEnvironment)
           (Some pressEdge) of
      Inl e \<Rightarrow> False
    | Inr s' \<Rightarrow> selectedObject s' = None \<and> \<not> edgesRendering (meshes s' (Cube 7)))"
proof -
  let ?release = "exampleFrame (Some releaseEdge) (Some (stick 0)) (onlyCube 7 5)"
  let ?miss = "exampleFrame (Some pressEdge) (Some (stick 0)) onlyEnvironment"
  have rel: "changes_pressed releaseEdge \<and> \<not> pressed releaseEdge"
    by (simp add: releaseEdge_def)
  have press: "changes_pressed pressEdge" "pressed pressEdge"
    by (simp_all add: pressEdge_def)
  note h = release_keeps_selection[OF holding_selected(1,3)]
  note k = release_keeps_selection[OF released_fields(1,2)]
  from h rel have 1: "\<exists>s'. onRightTrigger holding ?release (Some releaseEdge) = Inr s' \<and>
      selectedObject s' = Some (Cube 7) \<and> edgesRendering (meshes s' (Cube 7))"
    by blast
  have st: "step released (ControllerRemoved rightSource) =
      Inr (onControllerRemoved released rightSource) \<and>
      \<not> pressFrame released (ControllerRemoved rightSource)"
    by simp
  with k have 2: "selectedObject (onControllerRemoved released rightSource) = Some (Cube 7) \<and>
      edgesRendering (meshes (onControllerRemoved released rightSource) (Cube 7))"
    by blast
  have pick: "pickWithRay released ?miss (Ray (pointer_position ?miss) (pointer_forward ?miss) 20) =
      Some noHit"
    by (simp add: pick_released_onlyEnvironment)
  have nh: "\<not> hit noHit" by (simp add: noHit_def)
  from onRightTrigger_press_miss[OF press released_fields(3) pick nh]
  obtain s' where r: "onRightTrigger released ?miss (Some pressEdge) = Inr s'"
    by blast
  with k press have
    "(selectedObject s' = None \<and> \<not> edgesRendering (meshes s' (Cube 7))) \<or>
     (\<exists>p m'. pickWithRay released ?miss (Ray (pointer_position ?miss) (pointer_forward ?miss) 20) = Some p \<and>
        hit p \<and> pickedMesh p = Some m' \<and> selectedObject s' = Some m' \<and>
        (m' \<noteq> Cube 7 \<longrightarrow> \<not> edgesRendering (meshes s' (Cube 7))))"
    by blast
  with pick nh have 3: "selectedObject s' = None \<and> \<not> edgesRendering (meshes s' (Cube 7))"
    by auto
  from 1 2 3 r show ?thesis by auto
qed

subsection \<open>C10: ground, skybox and laser pointer are never selected\<close>

text \<open>
  Claim C10. In every state reached from the created scene, ground, skybox and laser
  pointer are not the selected object; and in a frame with a press edge whose ray meets
  no mesh other than these three, the ray cast reports no hit and the frame ends with
  nothing selected.
\<close>

theorem environment_never_selected:
  assumes "run (createScene cubePosition) evs = Inr s"
  shows "selectedObject s \<noteq> Some Ground \<and> selectedObject s \<noteq> Some Skybox \<and>
         selectedObject s \<noteq> Some LaserPointer \<and>
         (\<forall>env c. rightComponent s env ''xr-standard-trigger'' = Some c \<and>
              changes_pressed c \<and> pressed c \<and>
              (\<forall>m d. intersects env (Ray (pointer_position env) (pointer_forward env) 20) m = Some d
                 \<longrightarrow> m \<in> {Ground, Skybox, LaserPointer}) \<longrightarrow>
              pickWithRay s env (Ray (pointer_position env) (pointer_forward env) 20) = Some noHit \<and>
              (\<exists>s'. processControllerInput s env = Inr s' \<and> selectedObject s' = None))"
proof -
  have inv: "pickable_inv s"
    using run_pickable_inv[OF createScene_pickable_inv assms] .
  then have sel: "selectedObject s \<noteq> Some Ground \<and> selectedObject s \<noteq> Some Skybox \<and>
         selectedObject s \<noteq> Some LaserPointer"
    by (auto simp: pickable_inv_def)
  have press: "pickWithRay s env (Ray (pointer_position env) (pointer_forward env) 20) = Some noHit \<and>
      (\<exists>s'. processControllerInput s env = Inr s' \<and> selectedObject s' = None)"
    if comp: "rightComponent s env ''xr-standard-trigger'' = Some c"
      and edge: "changes_pressed c" "pressed c"
      and env: "\<forall>m d. intersects env (Ray (pointer_position env) (pointer_forward env) 20) m = Some d
                 \<longrightarrow> m \<in> {Ground, Skybox, LaserPointer}"
    for env c
  proof -
    from env have env': "\<And>m d. intersects env (Ray (pointer_position env) (pointer_forward env) 20) m = Some d
                \<Longrightarrow> m \<in> {Ground, Skybox, LaserPointer}"
      by blast
    have "pickWithRay s env (Ray (pointer_position env) (pointer_forward env) 20) = Some noHit"
      by (rule pickWithRay_environment_only[OF inv env'])
    moreover have "processControllerInput s env = Inr (deselect (s\<lparr>laserPointer_color := Green\<rparr>))"
      by (rule frame_press_environment_only[OF inv comp edge env'])
    ultimately show ?thesis by simp
  qed
  from sel press show ?thesis by blast
qed

theorem environment_never_selected_witness:
  "case run (createScene exampleCubes) session2 of
     Inl e \<Rightarrow> False
   | Inr s \<Rightarrow> selectedObject s = Some (Cube 7) \<and>
       pickWithRay s (exampleFrame (Some pressEdge) (Some (stick 0)) onlyEnvironment)
         (Ray (Vector3 0 1 0) (Vector3 0 0 1) 20) = Some noHit \<and>
       (case processControllerInput s (exampleFrame (Some pressEdge) (Some (stick 0)) onlyEnvironment) of
          Inl e \<Rightarrow> False
        | Inr s' \<Rightarrow> selectedObject s' = None)"
proof -
  let ?miss = "exampleFrame (Some pressEdge) (Some (stick 0)) onlyEnvironment"
  have comp: "rightComponent released ?miss ''xr-standard-trigger'' = Some pressEdge"
    by (simp add: rightComponent_released)
  have edge: "changes_pressed pressEdge \<and> pressed pressEdge"
    by (simp add: pressEdge_def)
  have env: "\<forall>m d. intersects ?miss (Ray (pointer_position ?miss) (pointer_forward ?miss) 20) m = Some d
      \<longrightarrow> m \<in> {Ground, Skybox, LaserPointer}"
    by (simp add: exampleFrame_def onlyEnvironment_def)
  from environment_never_selected[OF run_session2] comp edge env
  have "pickWithRay released ?miss (Ray (pointer_position ?miss) (pointer_forward ?miss) 20) = Some noHit \<and>
      (\<exists>s'. processControllerInput released ?miss = Inr s' \<and> selectedObject s' = None)"
    by blast
  then show ?thesis
    by (auto simp: run_session2 released_fields)
qed

end
